theory Spec2Isabelle
  imports Complex_Main "HOL-Library.Word" "HOL-Library.Signed_Division"
begin

unbundle bit_operations_syntax

section \<open>BME68x support of package bmxx80: data model\<close>

text \<open>
  Go's fixed-width integers are words. Signedness is not part of the word type: it is
  fixed at every conversion (\<open>ucast\<close> zero-extends an unsigned source, \<open>scast\<close>
  sign-extends a signed one), at every right shift (\<open>signed_drop_bit\<close> for a signed
  operand) and at every comparison and division.
\<close>

type_synonym byte = "8 word"
type_synonym uint16 = "16 word"
type_synonym int16 = "16 word"
type_synonym int8 = "8 word"
type_synonym int32 = "32 word"
type_synonym uint32 = "32 word"
type_synonym int64 = "64 word"

text \<open>\<open>type calibration68x struct\<close>, field by field.\<close>

record calibration68x =
  t1 :: uint16
  t2 :: int16
  t3 :: int8
  p1 :: uint16
  p2 :: int16
  p4 :: int16
  p5 :: int16
  p8 :: int16
  p9 :: int16
  p3 :: int8
  p6 :: int8
  p7 :: int8
  p10 :: byte
  h1 :: uint16
  h2 :: uint16
  h3 :: int8
  h4 :: int8
  h5 :: int8
  h7 :: int8
  h6 :: byte

text \<open>The zero value of the struct: what the named result \<open>c\<close> holds on entry.\<close>

definition zeroCalibration :: calibration68x where
  "zeroCalibration =
     \<lparr>t1 = 0, t2 = 0, t3 = 0, p1 = 0, p2 = 0, p4 = 0, p5 = 0, p8 = 0, p9 = 0,
      p3 = 0, p6 = 0, p7 = 0, p10 = 0, h1 = 0, h2 = 0, h3 = 0, h4 = 0, h5 = 0,
      h7 = 0, h6 = 0\<rparr>"

subsection \<open>Slice indexing and run-time panics\<close>

text \<open>
  Indexing a slice beyond its length makes the Go run time panic with
  ``index out of range [i] with length n''. The panic is a value of the model.
\<close>

datatype panic = IndexOutOfRange nat nat

definition index :: "byte list \<Rightarrow> nat \<Rightarrow> panic + byte" where
  "index b i = (if i < length b then Inr (b ! i) else Inl (IndexOutOfRange i (length b)))"

fun andThen :: "panic + 'a \<Rightarrow> ('a \<Rightarrow> panic + 'b) \<Rightarrow> panic + 'b" where
  "andThen (Inl e) f = Inl e"
| "andThen (Inr x) f = f x"

section \<open>Calibration parsing\<close>

text \<open>
  \<open>newCalibration68x(tph, h []byte) (c calibration68x)\<close>: the assignments in the order
  of the source, the index expressions of each assignment from left to right. The
  offsets into \<open>h\<close> are written \<open>31-23\<close>, \<open>32-23\<close>, ... in the source.
\<close>

definition newCalibration68x :: "byte list \<Rightarrow> byte list \<Rightarrow> panic + calibration68x" where
  "newCalibration68x tph h =
     andThen (index h (31 - 23)) (\<lambda>a. andThen (index h (32 - 23)) (\<lambda>b.
     let c = zeroCalibration\<lparr>t1 := ucast a OR push_bit 8 (ucast b)\<rparr> in
     andThen (index tph 0) (\<lambda>a. andThen (index tph 1) (\<lambda>b.
     let c = c\<lparr>t2 := ucast a OR push_bit 8 (ucast b)\<rparr> in
     andThen (index tph 2) (\<lambda>a.
     let c = c\<lparr>t3 := a\<rparr> in
     andThen (index tph 4) (\<lambda>a. andThen (index tph 5) (\<lambda>b.
     let c = c\<lparr>p1 := ucast a OR push_bit 8 (ucast b)\<rparr> in
     andThen (index tph 6) (\<lambda>a. andThen (index tph 7) (\<lambda>b.
     let c = c\<lparr>p2 := ucast a OR push_bit 8 (ucast b)\<rparr> in
     andThen (index tph 8) (\<lambda>a.
     let c = c\<lparr>p3 := a\<rparr> in
     andThen (index tph 10) (\<lambda>a. andThen (index tph 11) (\<lambda>b.
     let c = c\<lparr>p4 := ucast a OR push_bit 8 (ucast b)\<rparr> in
     andThen (index tph 12) (\<lambda>a. andThen (index tph 13) (\<lambda>b.
     let c = c\<lparr>p5 := ucast a OR push_bit 8 (ucast b)\<rparr> in
     andThen (index tph 15) (\<lambda>a.
     let c = c\<lparr>p6 := a\<rparr> in
     andThen (index tph 14) (\<lambda>a.
     let c = c\<lparr>p7 := a\<rparr> in
     andThen (index tph 18) (\<lambda>a. andThen (index tph 19) (\<lambda>b.
     let c = c\<lparr>p8 := ucast a OR push_bit 8 (ucast b)\<rparr> in
     andThen (index tph 20) (\<lambda>a. andThen (index tph 21) (\<lambda>b.
     let c = c\<lparr>p9 := ucast a OR push_bit 8 (ucast b)\<rparr> in
     andThen (index tph 22) (\<lambda>a.
     let c = c\<lparr>p10 := a\<rparr> in
     andThen (index h (24 - 23)) (\<lambda>a. andThen (index h (25 - 23)) (\<lambda>b.
     let c = c\<lparr>h1 := (ucast a AND 0xF) OR push_bit 4 (ucast b)\<rparr> in
     andThen (index h (24 - 23)) (\<lambda>a. andThen (index h (23 - 23)) (\<lambda>b.
     let c = c\<lparr>h2 := drop_bit 4 (ucast a) OR push_bit 4 (ucast b)\<rparr> in
     andThen (index h (26 - 23)) (\<lambda>a.
     let c = c\<lparr>h3 := a\<rparr> in
     andThen (index h (27 - 23)) (\<lambda>a.
     let c = c\<lparr>h4 := a\<rparr> in
     andThen (index h (28 - 23)) (\<lambda>a.
     let c = c\<lparr>h5 := a\<rparr> in
     andThen (index h (29 - 23)) (\<lambda>a.
     let c = c\<lparr>h6 := a\<rparr> in
     andThen (index h (30 - 23)) (\<lambda>a.
     let c = c\<lparr>h7 := a\<rparr> in
     Inr c))))))))))))))))))))))))))))))"

section \<open>Compensation\<close>

subsection \<open>Integer operators of Go\<close>

text \<open>
  \<open>/\<close> on signed integers truncates towards zero, and the quotient wraps to the width
  of the operands. \<open>>>\<close> on a signed operand is the arithmetic shift \<open>signed_drop_bit\<close>.
\<close>

definition quo32 :: "int32 \<Rightarrow> int32 \<Rightarrow> int32" where
  "quo32 x y = word_of_int (sint x sdiv sint y)"

definition quo64 :: "int64 \<Rightarrow> int64 \<Rightarrow> int64" where
  "quo64 x y = word_of_int (sint x sdiv sint y)"

subsection \<open>Temperature\<close>

text \<open>The value returned first by \<open>compensateTempInt\<close>: \<open>int32((tFine*5 + 128) >> 8)\<close>.\<close>

definition centiCelsius :: "int64 \<Rightarrow> int32" where
  "centiCelsius tFine = ucast (signed_drop_bit 8 (tFine * 5 + 128))"

text \<open>\<open>func (c *calibration68x) compensateTempInt(raw int32) (int32, int32)\<close>\<close>

definition compensateTempInt :: "calibration68x \<Rightarrow> int32 \<Rightarrow> int32 \<times> int32" where
  "compensateTempInt c raw =
     (let var1 = signed_drop_bit 3 (scast raw :: int64) - push_bit 1 (ucast (t1 c) :: int64);
          var2 = signed_drop_bit 11 (var1 * (scast (t2 c) :: int64));
          var3 = signed_drop_bit 12 (signed_drop_bit 1 var1 * signed_drop_bit 1 var1);
          var3 = signed_drop_bit 14 (var3 * push_bit 4 (scast (t3 c) :: int64));
          tFine = var2 + var3
      in (centiCelsius tFine, ucast tFine))"

text \<open>
  The algorithm as the specification writes it, on unbounded integers: \<open>>> k\<close> is the
  division by \<open>2 ^ k\<close> rounding down, \<open><< k\<close> the multiplication by \<open>2 ^ k\<close>. The
  arguments are the values of \<open>t1\<close>, \<open>t2\<close>, \<open>t3\<close> and of the raw code.
\<close>

definition spec_compensateTemperature :: "int \<Rightarrow> int \<Rightarrow> int \<Rightarrow> int \<Rightarrow> int \<times> int" where
  "spec_compensateTemperature T1 T2 T3 tRaw =
     (let v1 = tRaw div 2 ^ 3 - T1 * 2 ^ 1;
          v2 = (v1 * T2) div 2 ^ 11;
          v3 = ((((v1 div 2 ^ 1) * (v1 div 2 ^ 1)) div 2 ^ 12) * (T3 * 2 ^ 4)) div 2 ^ 14;
          tFine = v2 + v3
      in ((tFine * 5 + 128) div 2 ^ 8, tFine))"

subsection \<open>Pressure\<close>

text \<open>
  \<open>compensatePressureFloat\<close> computes in \<open>float64\<close>. The floating-point operations
  are a parameter of the model: any type \<open>'f\<close> with the four arithmetic operations,
  the conversion of an integer value (\<open>float64(x)\<close> for an integer \<open>x\<close>, and the
  constants of the source, all of them integers) and the conversions \<open>int32(f)\<close> and
  \<open>int64(f)\<close>. None of these operations panics in Go: dividing a float by zero gives
  an infinity or a NaN, and converting a float that does not fit gives some integer.
\<close>

record 'f float64_ops =
  ofInt :: "int \<Rightarrow> 'f"
  fadd :: "'f \<Rightarrow> 'f \<Rightarrow> 'f"
  fsub :: "'f \<Rightarrow> 'f \<Rightarrow> 'f"
  fmul :: "'f \<Rightarrow> 'f \<Rightarrow> 'f"
  fdiv :: "'f \<Rightarrow> 'f \<Rightarrow> 'f"
  toInt32 :: "'f \<Rightarrow> int32"
  toInt64 :: "'f \<Rightarrow> int64"

text \<open>
  The value of \<open>var1\<close> when the guard \<open>int32(var1) != 0\<close> is reached: the first,
  fifth and sixth assignments of \<open>compensatePressureFloat\<close>.
\<close>

definition pressureDenominator :: "'f float64_ops \<Rightarrow> calibration68x \<Rightarrow> int32 \<Rightarrow> 'f" where
  "pressureDenominator F c tFine =
     (let var1 = fsub F (fdiv F (ofInt F (sint tFine)) (ofInt F 2)) (ofInt F 64000);
          var1 = fdiv F (fadd F (fdiv F (fmul F (fmul F (ofInt F (sint (p3 c))) var1) var1)
                                        (ofInt F 16384))
                                (fmul F (ofInt F (sint (p2 c))) var1))
                        (ofInt F 524288);
          var1 = fmul F (fadd F (ofInt F 1) (fdiv F var1 (ofInt F 32768))) (ofInt F (uint (p1 c)))
      in var1)"

text \<open>\<open>func (c *calibration68x) compensatePressureFloat(raw, tFine int32) float64\<close>\<close>

definition compensatePressureFloat ::
    "'f float64_ops \<Rightarrow> calibration68x \<Rightarrow> int32 \<Rightarrow> int32 \<Rightarrow> 'f" where
  "compensatePressureFloat F c raw tFine =
     (let var1 = fsub F (fdiv F (ofInt F (sint tFine)) (ofInt F 2)) (ofInt F 64000);
          var2 = fmul F (fmul F var1 var1) (fdiv F (ofInt F (sint (p6 c))) (ofInt F 131072));
          var2 = fadd F var2 (fmul F (fmul F var1 (ofInt F (sint (p5 c)))) (ofInt F 2));
          var2 = fadd F (fdiv F var2 (ofInt F 4)) (fmul F (ofInt F (sint (p4 c))) (ofInt F 65536));
          var1 = fdiv F (fadd F (fdiv F (fmul F (fmul F (ofInt F (sint (p3 c))) var1) var1)
                                        (ofInt F 16384))
                                (fmul F (ofInt F (sint (p2 c))) var1))
                        (ofInt F 524288);
          var1 = fmul F (fadd F (ofInt F 1) (fdiv F var1 (ofInt F 32768))) (ofInt F (uint (p1 c)));
          calc_pres = fsub F (ofInt F 1048576) (ofInt F (sint raw))
      in if toInt32 F var1 \<noteq> 0 then
           (let calc_pres = fdiv F (fmul F (fsub F calc_pres (fdiv F var2 (ofInt F 4096)))
                                           (ofInt F 6250))
                                   var1;
                var1 = fdiv F (fmul F (fmul F (ofInt F (sint (p9 c))) calc_pres) calc_pres)
                              (ofInt F 2147483648);
                var2 = fmul F calc_pres (fdiv F (ofInt F (sint (p8 c))) (ofInt F 32768));
                var3 = fmul F (fmul F (fmul F (fdiv F calc_pres (ofInt F 256))
                                              (fdiv F calc_pres (ofInt F 256)))
                                      (fdiv F calc_pres (ofInt F 256)))
                              (fdiv F (ofInt F (uint (p10 c))) (ofInt F 131072));
                calc_pres = fadd F calc_pres
                              (fdiv F (fadd F (fadd F (fadd F var1 var2) var3)
                                              (fmul F (ofInt F (sint (p7 c))) (ofInt F 128)))
                                      (ofInt F 16))
            in calc_pres)
         else ofInt F 0)"

text \<open>
  An instance of the operations, for running the model on concrete inputs: arithmetic on
  the reals, without rounding, the conversions to an integer truncating towards zero.
\<close>

definition towardZero :: "real \<Rightarrow> int" where
  "towardZero x = (if 0 \<le> x then \<lfloor>x\<rfloor> else - \<lfloor>- x\<rfloor>)"

definition exactArithmetic :: "real float64_ops" where
  "exactArithmetic =
     \<lparr>ofInt = of_int, fadd = (+), fsub = (-), fmul = (*), fdiv = (/),
      toInt32 = (\<lambda>x. word_of_int (towardZero x)), toInt64 = (\<lambda>x. word_of_int (towardZero x))\<rparr>"

subsection \<open>Humidity\<close>

text \<open>\<open>tempScaled = ((tFine * 5) + 128) >> 8\<close>, in \<open>int32\<close>.\<close>

definition tempScaled :: "int32 \<Rightarrow> int32" where
  "tempScaled tFine = signed_drop_bit 8 ((tFine * 5) + 128)"

text \<open>The value of \<open>calcHum\<close> before it is capped.\<close>

definition calcHum :: "calibration68x \<Rightarrow> int32 \<Rightarrow> int32 \<Rightarrow> int32" where
  "calcHum c raw tFine =
     (let tempScaled = tempScaled tFine;
          var1 = (raw - ((ucast (h1 c) :: int32) * 16))
                 - signed_drop_bit 1 (quo32 (tempScaled * (scast (h3 c) :: int32)) 100);
          var2 = signed_drop_bit 10
                   ((ucast (h2 c) :: int32)
                    * (quo32 (tempScaled * (scast (h4 c) :: int32)) 100
                       + quo32 (signed_drop_bit 6
                                  (tempScaled * quo32 (tempScaled * (scast (h5 c) :: int32)) 100))
                               100
                       + push_bit 14 1));
          var3 = var1 * var2;
          var4 = push_bit 7 (ucast (h6 c) :: int32);
          var4 = signed_drop_bit 4 (var4 + quo32 (tempScaled * (scast (h7 c) :: int32)) 100);
          var5 = signed_drop_bit 10 (signed_drop_bit 14 var3 * signed_drop_bit 14 var3);
          var6 = signed_drop_bit 1 (var4 * var5)
      in signed_drop_bit 12 (signed_drop_bit 10 (var3 + var6) * 1000))"

text \<open>\<open>func (c *calibration68x) compensateHumidityInt(raw, tFine int32) uint32\<close>\<close>

definition compensateHumidityInt :: "calibration68x \<Rightarrow> int32 \<Rightarrow> int32 \<Rightarrow> uint32" where
  "compensateHumidityInt c raw tFine =
     (let calcHum = calcHum c raw tFine;
          calcHum = (if 100000 < sint calcHum then 100000
                     else if sint calcHum < 0 then 0
                     else calcHum)
      in calcHum)"

section \<open>The device\<close>

subsection \<open>Physical quantities\<close>

text \<open>
  Package \<open>periph.io/x/conn/v3/physic\<close>: \<open>Temperature\<close> is an \<open>int64\<close> of nanokelvins,
  \<open>Pressure\<close> an \<open>int64\<close> of nanopascals, \<open>RelativeHumidity\<close> an \<open>int32\<close> of tenths of
  a micro-percent, with the constants below.
\<close>

definition MilliCelsius :: int64 where
  "MilliCelsius = 1000000"

definition ZeroCelsius :: int64 where
  "ZeroCelsius = 273150 * 1000000"

definition MicroPascal :: int64 where
  "MicroPascal = 1000"

definition MicroRH :: int32 where
  "MicroRH = 10"

text \<open>\<open>physic.Env\<close>\<close>

record Env =
  Temperature :: int64
  Pressure :: int64
  Humidity :: int32

subsection \<open>Options and device\<close>

text \<open>
  Modelled from the spec: the types \<open>Oversampling\<close>, \<open>Opts\<close> and \<open>Dev\<close> are declared
  outside the given sources. The specification has the requested channel set, pressure
  and humidity optional; \<open>sense68x\<close> compares \<open>d.opts.Pressure\<close> and \<open>d.opts.Humidity\<close>
  with \<open>Off\<close>, and reads \<open>d.isBME\<close> and \<open>d.cal68x\<close>.
\<close>

datatype Oversampling = Off | O1x | O2x | O4x | O8x | O16x

record Opts =
  optTemperature :: Oversampling
  optPressure :: Oversampling
  optHumidity :: Oversampling

record Dev =
  isBME :: bool
  opts :: Opts
  cal68x :: calibration68x

subsection \<open>Reading registers\<close>

text \<open>
  The transport below the driver is a parameter: given its own state, a register address
  and a length, it answers with a transport error or with bytes, and a new state.
\<close>

type_synonym ('s, 'e) transport = "'s \<Rightarrow> byte \<Rightarrow> nat \<Rightarrow> ('e + byte list) \<times> 's"

text \<open>The bus as the driver sees it: the transport's state and the reads issued so far.\<close>

record 's bus =
  device :: 's
  reads :: "(byte \<times> nat) list"

text \<open>
  A callee writes into the slice it is given and cannot change its length: what the
  transport delivers beyond the slice is dropped, what it does not deliver stays.
\<close>

definition store :: "byte list \<Rightarrow> byte list \<Rightarrow> byte list" where
  "store b bs = take (length b) bs @ drop (length bs) b"

text \<open>
  Modelled from the spec: \<open>Dev.readReg(reg uint8, b []byte) error\<close> is not among the given
  sources. The specification has \<open>read(address, length) -> bytes | TransportError\<close>, the
  bytes read starting at the address. The result is the error, if any, and the contents
  of \<open>b\<close> after the call; every call is recorded in \<open>reads\<close>.
\<close>

definition readReg ::
    "('s, 'e) transport \<Rightarrow> byte \<Rightarrow> byte list \<Rightarrow> 's bus \<Rightarrow> ('e option \<times> byte list) \<times> 's bus" where
  "readReg tr reg b s =
     (case tr (device s) reg (length b) of
        (r, dev) \<Rightarrow>
          (let s' = \<lparr>device = dev, reads = reads s @ [(reg, length b)]\<rparr>
           in case r of
                Inl err \<Rightarrow> ((Some err, b), s')
              | Inr bs \<Rightarrow> ((None, store b bs), s')))"

text \<open>
  Two transports for running the model: a register file, which answers a read with the
  bytes at the address and after it, and a transport on which every read fails.
\<close>

definition registerFile :: "(byte \<Rightarrow> byte, 'e) transport" where
  "registerFile mem reg n = (Inr (map (\<lambda>i. mem (reg + of_nat i)) [0..<n]), mem)"

definition failing :: "'e \<Rightarrow> ('s, 'e) transport" where
  "failing err s reg n = (Inl err, s)"

subsection \<open>Measurement\<close>

text \<open>
  The raw codes of \<open>sense68x\<close>, from the array \<open>buf\<close> of 8 bytes:
  \<open>int32(buf[0])<<12 | int32(buf[1])<<4 | int32(buf[2])>>4\<close> and so on.
\<close>

definition pRaw :: "byte list \<Rightarrow> int32" where
  "pRaw buf = push_bit 12 (ucast (buf ! 0)) OR push_bit 4 (ucast (buf ! 1))
              OR signed_drop_bit 4 (ucast (buf ! 2))"

definition tRaw :: "byte list \<Rightarrow> int32" where
  "tRaw buf = push_bit 12 (ucast (buf ! 3)) OR push_bit 4 (ucast (buf ! 4))
              OR signed_drop_bit 4 (ucast (buf ! 5))"

definition hRaw :: "byte list \<Rightarrow> int32" where
  "hRaw buf = push_bit 8 (ucast (buf ! 6)) OR ucast (buf ! 7)"

text \<open>
  The first part of \<open>sense68x\<close>: the array \<open>buf\<close>, the slice \<open>b\<close> over all of it or
  over its first 6 bytes, and the read into \<open>b\<close>. The slice shares the array's storage, so
  the array afterwards is the slice followed by the bytes the slice does not cover.
\<close>

definition readMeasurement ::
    "('s, 'e) transport \<Rightarrow> Dev \<Rightarrow> 's bus \<Rightarrow> ('e option \<times> byte list) \<times> 's bus" where
  "readMeasurement tr d s =
     (let buf = replicate 8 (0 :: byte);
          b = (if \<not> isBME d then take 6 buf else buf)
      in case readReg tr 0x1F b s of
           ((err, b'), s') \<Rightarrow> ((err, b' @ drop (length b') buf), s'))"

text \<open>The second part of \<open>sense68x\<close>: from the raw codes to the fields of \<open>e\<close>.\<close>

definition compensate :: "'f float64_ops \<Rightarrow> Dev \<Rightarrow> byte list \<Rightarrow> Env \<Rightarrow> Env" where
  "compensate F d buf e =
     (let pRaw = pRaw buf;
          tRaw = tRaw buf;
          (t, tFine) = compensateTempInt (cal68x d) tRaw;
          e = e\<lparr>Temperature := (scast t :: int64) * 10 * MilliCelsius + ZeroCelsius\<rparr>;
          e = (if optPressure (opts d) \<noteq> Off then
                 (let p = compensatePressureFloat F (cal68x d) pRaw tFine
                  in e\<lparr>Pressure :=
                         quo64 (toInt64 F (fmul F p (ofInt F 256)) * 15625 * MicroPascal) 4\<rparr>)
               else e);
          e = (if optHumidity (opts d) \<noteq> Off then
                 (let hRaw = hRaw buf;
                      h = compensateHumidityInt (cal68x d) hRaw tFine
                  in e\<lparr>Humidity := quo32 (h * 10000) 1024 * MicroRH\<rparr>)
               else e)
      in e)"

text \<open>
  \<open>func (d *Dev) sense68x(e *physic.Env) error\<close>: the error, \<open>e\<close> after the call, and the
  bus after the call.
\<close>

definition sense68x ::
    "'f float64_ops \<Rightarrow> ('s, 'e) transport \<Rightarrow> Dev \<Rightarrow> Env \<Rightarrow> 's bus \<Rightarrow> 'e option \<times> Env \<times> 's bus" where
  "sense68x F tr d e s =
     (case readMeasurement tr d s of
        ((Some err, buf), s') \<Rightarrow> (Some err, e, s')
      | ((None, buf), s') \<Rightarrow> (None, compensate F d buf e, s'))"

subsection \<open>Idle status\<close>

text \<open>\<open>func (d *Dev) isIdle68x() (bool, error)\<close>\<close>

definition isIdle68x :: "('s, 'e) transport \<Rightarrow> 's bus \<Rightarrow> (bool \<times> 'e option) \<times> 's bus" where
  "isIdle68x tr s =
     (let v = replicate 1 (0 :: byte)
      in case readReg tr 0x1D v s of
           ((Some err, v), s') \<Rightarrow> ((False, Some err), s')
         | ((None, v), s') \<Rightarrow> ((v ! 0 AND 60 = 0, None), s'))"

section \<open>Example data\<close>

text \<open>Two calibration blocks of the minimal sizes, and the coefficients they hold.\<close>

definition exampleTph :: "byte list" where
  "exampleTph =
     [0x65, 0x67, 0x03, 0xF0, 0xC0, 0x88, 0xD4, 0xD7, 0x58, 0x00, 0x0C, 0x1E,
      0x6A, 0xFF, 0x1D, 0x1E, 0x00, 0x00, 0x04, 0xFC, 0x89, 0xF2, 0x1E]"

definition exampleH :: "byte list" where
  "exampleH = [0x3F, 0x29, 0x31, 0x00, 0x2D, 0x14, 0x78, 0x9C, 0xB9, 0x65]"

definition exampleCalibration :: calibration68x where
  "exampleCalibration =
     \<lparr>t1 = 26041, t2 = 26469, t3 = 3, p1 = 35008, p2 = - 10284, p4 = 7692, p5 = - 150,
      p8 = - 1020, p9 = - 3447, p3 = 88, p6 = 30, p7 = 29, p10 = 30, h1 = 793, h2 = 1010,
      h3 = 0, h4 = 45, h5 = 20, h7 = - 100, h6 = 120\<rparr>"

text \<open>
  Coefficients for which the denominator of the pressure compensation is below 1 at
  \<open>tFine = -920608\<close>, with \<open>p1\<close> not zero.
\<close>

definition smallDenominatorCalibration :: calibration68x where
  "smallDenominatorCalibration = exampleCalibration\<lparr>p2 := 32767, p3 := 0\<rparr>"

text \<open>
  The measurement registers \<open>0x1F\<close> to \<open>0x26\<close> of a device: the raw codes 400000 for the
  pressure, 500000 for the temperature and 20000 for the humidity. Every other register
  reads as 0.
\<close>

definition exampleMeasurement :: "byte list" where
  "exampleMeasurement = [0x61, 0xA8, 0x00, 0x7A, 0x12, 0x00, 0x4E, 0x20]"

definition exampleRegisters :: "byte \<Rightarrow> byte" where
  "exampleRegisters a =
     (if 0x1F \<le> a \<and> a \<le> 0x26 then exampleMeasurement ! (unat a - 0x1F) else 0)"

text \<open>A BME device with every channel requested, and the same device with humidity off.\<close>

definition exampleDev :: Dev where
  "exampleDev =
     \<lparr>isBME = True,
      opts = \<lparr>optTemperature = O1x, optPressure = O1x, optHumidity = O1x\<rparr>,
      cal68x = exampleCalibration\<rparr>"

definition humidityOffDev :: Dev where
  "humidityOffDev =
     \<lparr>isBME = True,
      opts = \<lparr>optTemperature = O1x, optPressure = O1x, optHumidity = Off\<rparr>,
      cal68x = exampleCalibration\<rparr>"

definition temperatureOnlyDev :: Dev where
  "temperatureOnlyDev =
     \<lparr>isBME = True,
      opts = \<lparr>optTemperature = O1x, optPressure = Off, optHumidity = Off\<rparr>,
      cal68x = exampleCalibration\<rparr>"

definition zeroEnv :: Env where
  "zeroEnv = \<lparr>Temperature = 0, Pressure = 0, Humidity = 0\<rparr>"

definition freshBus :: "'s \<Rightarrow> 's bus" where
  "freshBus dev = \<lparr>device = dev, reads = []\<rparr>"

section \<open>Properties of calibration parsing\<close>

lemma andThen_Inr_iff:
  "andThen m f = Inr c \<longleftrightarrow> (\<exists>x. m = Inr x \<and> f x = Inr c)"
  by (cases m) simp_all

lemma andThen_Inl_iff:
  "andThen m f = Inl e \<longleftrightarrow> m = Inl e \<or> (\<exists>x. m = Inr x \<and> f x = Inl e)"
  by (cases m) simp_all

lemma index_Inr_iff: "index b i = Inr x \<longleftrightarrow> i < length b \<and> x = b ! i"
  by (auto simp: index_def)

lemma index_Inl_iff:
  "index b i = Inl e \<longleftrightarrow> length b \<le> i \<and> e = IndexOutOfRange i (length b)"
  by (auto simp: index_def)

lemma newCalibration68x_Inr_length:
  assumes "newCalibration68x tph h = Inr c"
  shows "23 \<le> length tph \<and> 10 \<le> length h"
  using assms
  by (simp add: newCalibration68x_def andThen_Inr_iff index_Inr_iff Let_def)

lemma newCalibration68x_Inl_shape:
  assumes "newCalibration68x tph h = Inl e"
  shows "\<exists>i n. e = IndexOutOfRange i n \<and> n \<le> i \<and> i \<le> 22 \<and> (n = length tph \<or> n = length h)"
  using assms
  apply (simp add: newCalibration68x_def andThen_Inl_iff index_Inr_iff index_Inl_iff Let_def)
  apply (elim disjE conjE exE)
  apply simp_all
  done

text \<open>
  C1, as stated: a \<open>tph\<close> block of 22 bytes is rejected with a size error, by a check made
  before any indexing, so that no out-of-range access occurs. \<open>newCalibration68x\<close> has no
  such check and no error result: on 22 bytes it indexes \<open>h\<close> and \<open>tph\<close> until
  \<open>tph[22]\<close>, where the run time panics on the out-of-range index.
\<close>

theorem newCalibration68x_22_bytes_counterexample:
  "newCalibration68x (replicate 22 0) exampleH = Inl (IndexOutOfRange 22 22)"
  by (simp add: newCalibration68x_def index_def Let_def exampleH_def)

text \<open>
  C1, amended: when the \<open>tph\<close> block has fewer than 23 bytes or the humidity block fewer
  than 10, \<open>newCalibration68x\<close> returns no coefficients: it stops in the run-time panic of
  an index expression, at an index out of the range of the block it indexes.
\<close>

theorem newCalibration68x_short_block_panics:
  assumes "length tph < 23 \<or> length h < 10"
  shows "\<exists>i n. newCalibration68x tph h = Inl (IndexOutOfRange i n)
           \<and> n \<le> i \<and> i \<le> 22 \<and> (n = length tph \<or> n = length h)"
proof (cases "newCalibration68x tph h")
  case (Inl e)
  then show ?thesis
    using newCalibration68x_Inl_shape [of tph h e] by auto
next
  case (Inr c)
  then have "23 \<le> length tph \<and> 10 \<le> length h"
    by (rule newCalibration68x_Inr_length)
  with assms show ?thesis by simp
qed

theorem newCalibration68x_short_block_panics_witness:
  "(length exampleTph < 23 \<or> length (take 9 exampleH) < 10)
   \<and> (\<exists>i n. newCalibration68x exampleTph (take 9 exampleH) = Inl (IndexOutOfRange i n)
         \<and> n \<le> i \<and> i \<le> 22 \<and> (n = length exampleTph \<or> n = length (take 9 exampleH)))"
  using newCalibration68x_short_block_panics [of exampleTph "take 9 exampleH"]
  by (simp add: exampleH_def)

text \<open>
  C2: on a \<open>tph\<close> block of at least 23 bytes and a humidity block of at least 10 bytes,
  \<open>newCalibration68x\<close> returns the coefficients, each one the documented combination of
  the bytes at its offsets: two bytes little-endian for the 16-bit coefficients, \<open>p7\<close> from
  \<open>tph[14]\<close> and \<open>p6\<close> from \<open>tph[15]\<close>, \<open>t1\<close> from the offsets 8 and 9 of the humidity
  block, \<open>h1\<close> and \<open>h2\<close> from the two nibbles of \<open>h[1]\<close>.
\<close>

theorem newCalibration68x_coefficients:
  assumes "23 \<le> length tph" "10 \<le> length h"
  shows "newCalibration68x tph h =
     Inr \<lparr>t1 = ucast (h ! 8) OR push_bit 8 (ucast (h ! 9)),
          t2 = ucast (tph ! 0) OR push_bit 8 (ucast (tph ! 1)),
          t3 = tph ! 2,
          p1 = ucast (tph ! 4) OR push_bit 8 (ucast (tph ! 5)),
          p2 = ucast (tph ! 6) OR push_bit 8 (ucast (tph ! 7)),
          p4 = ucast (tph ! 10) OR push_bit 8 (ucast (tph ! 11)),
          p5 = ucast (tph ! 12) OR push_bit 8 (ucast (tph ! 13)),
          p8 = ucast (tph ! 18) OR push_bit 8 (ucast (tph ! 19)),
          p9 = ucast (tph ! 20) OR push_bit 8 (ucast (tph ! 21)),
          p3 = tph ! 8,
          p6 = tph ! 15,
          p7 = tph ! 14,
          p10 = tph ! 22,
          h1 = (ucast (h ! 1) AND 0xF) OR push_bit 4 (ucast (h ! 2)),
          h2 = drop_bit 4 (ucast (h ! 1)) OR push_bit 4 (ucast (h ! 0)),
          h3 = h ! 3, h4 = h ! 4, h5 = h ! 5, h7 = h ! 7, h6 = h ! 6\<rparr>"
  using assms
  by (auto simp add: newCalibration68x_def index_def Let_def zeroCalibration_def)

theorem newCalibration68x_coefficients_witness:
  "23 \<le> length exampleTph \<and> 10 \<le> length exampleH
   \<and> newCalibration68x exampleTph exampleH = Inr exampleCalibration"
  using newCalibration68x_coefficients [of exampleTph exampleH]
  by (simp add: exampleTph_def exampleH_def exampleCalibration_def)


section \<open>Properties of temperature compensation\<close>

subsection \<open>Signed arithmetic that does not overflow\<close>


lemma sint_add64: "\<bar>sint a + sint b\<bar> < 2 ^ 63 \<Longrightarrow> sint (a + b :: 64 word) = sint a + sint b"
  by (simp add: sint_word_add signed_take_bit_int_eq_self abs_less_iff)

lemma sint_diff64: "\<bar>sint a - sint b\<bar> < 2 ^ 63 \<Longrightarrow> sint (a - b :: 64 word) = sint a - sint b"
  by (simp add: sint_word_diff signed_take_bit_int_eq_self abs_less_iff)

lemma sint_mult64: "\<bar>sint a * sint b\<bar> < 2 ^ 63 \<Longrightarrow> sint (a * b :: 64 word) = sint a * sint b"
  by (simp add: sint_word_mult signed_take_bit_int_eq_self abs_less_iff)

lemma sint_shr: "sint (signed_drop_bit n w) = sint w div 2 ^ n"
  by (simp add: sint_signed_drop_bit_eq drop_bit_eq_div)

lemma sint_scast_32_64: "sint (scast w :: 64 word) = sint (w :: 32 word)"
  by (simp add: sint_up_scast is_up)

lemma sint_scast_16_64: "sint (scast w :: 64 word) = sint (w :: 16 word)"
  by (simp add: sint_up_scast is_up)

lemma sint_scast_8_64: "sint (scast w :: 64 word) = sint (w :: 8 word)"
  by (simp add: sint_up_scast is_up)

lemma sint_ucast_16_64: "sint (ucast w :: 64 word) = uint (w :: 16 word)"
proof -
  have "uint w < 2 ^ 16" using uint_bounded [of w] by simp
  then have upper: "uint w < 2 ^ 63" by simp
  have lower: "- (2 ^ 63) \<le> uint w"
    by (rule order_trans [of _ 0]) simp_all
  have "signed_take_bit 63 (uint w) = uint w"
    using lower upper by (rule signed_take_bit_int_eq_self)
  then show ?thesis
    by (simp add: signed_ucast_eq)
qed

lemma sint_ucast_64_32:
  assumes "\<bar>sint w\<bar> < 2 ^ 31"
  shows "sint (ucast w :: 32 word) = sint (w :: 64 word)"
proof -
  have "(ucast w :: 32 word) = scast w"
    by (simp add: down_cast_same is_down)
  then have "sint (ucast w :: 32 word) = signed_take_bit 31 (sint w)"
    by (simp add: signed_scast_eq)
  with assms show ?thesis
    by (simp add: signed_take_bit_int_eq_self abs_less_iff)
qed

lemma abs_div_pow2:
  fixes x M :: int
  assumes "\<bar>x\<bar> \<le> M * 2 ^ k"
  shows "\<bar>x div 2 ^ k\<bar> \<le> M"
proof -
  have "x div 2 ^ k \<le> (M * 2 ^ k) div 2 ^ k"
    using assms by (intro zdiv_mono1) auto
  moreover have "(- (M * 2 ^ k)) div 2 ^ k \<le> x div 2 ^ k"
    using assms by (intro zdiv_mono1) auto
  moreover have "(- (M * 2 ^ k)) div 2 ^ k = - M"
  proof -
    have "((- M) * 2 ^ k) div 2 ^ k = - M"
      by (rule nonzero_mult_div_cancel_right) simp
    then show ?thesis by (simp only: mult_minus_left)
  qed
  ultimately show ?thesis by simp
qed

lemma abs_mult_le:
  fixes x y a b :: int
  assumes "\<bar>x\<bar> \<le> a" "\<bar>y\<bar> \<le> b"
  shows "\<bar>x * y\<bar> \<le> a * b"
  unfolding abs_mult using assms by (intro mult_mono) auto

lemma sint_shl64:
  "\<bar>sint w * 2 ^ n\<bar> < 2 ^ 63 \<Longrightarrow> sint (push_bit n w :: 64 word) = sint w * 2 ^ n"
proof -
  assume "\<bar>sint w * 2 ^ n\<bar> < 2 ^ 63"
  then have "signed_take_bit 63 (sint w * 2 ^ n) = sint w * 2 ^ n"
    by (intro signed_take_bit_int_eq_self) (simp_all add: abs_less_iff)
  moreover have "sint (push_bit n w) = signed_take_bit 63 (push_bit n (sint w))"
    by (simp add: signed_push_bit_eq)
  ultimately show ?thesis
    by (simp add: push_bit_eq_mult)
qed

lemma abs_sint16: "\<bar>sint (w :: 16 word)\<bar> \<le> 2 ^ 15"
  using sint_ge [of w] sint_lt [of w] by simp

lemma abs_sint8: "\<bar>sint (w :: 8 word)\<bar> \<le> 2 ^ 7"
  using sint_ge [of w] sint_lt [of w] by simp

lemma abs_uint16: "\<bar>uint (w :: 16 word)\<bar> \<le> 2 ^ 16"
  using uint_bounded [of w] by simp

text \<open>
  C3: for a raw code of 20 bits and any coefficients, \<open>compensateTempInt\<close>, computing
  in \<open>int64\<close>, returns the two values of the algorithm of the specification read on
  unbounded integers: no intermediate overflows 64 bits, and both results fit the \<open>int32\<close>
  they are converted to. The first is \<open>(tFine * 5 + 128) >> 8\<close>, the second \<open>tFine\<close>.
\<close>

theorem compensateTempInt_spec:
  assumes "0 \<le> sint raw" "sint raw < 2 ^ 20"
  shows "(sint (fst (compensateTempInt c raw)), sint (snd (compensateTempInt c raw)))
         = spec_compensateTemperature (uint (t1 c)) (sint (t2 c)) (sint (t3 c)) (sint raw)"
proof -
  define A :: int64 where "A = signed_drop_bit 3 (scast raw)"
  define B :: int64 where "B = push_bit 1 (ucast (t1 c))"
  define C :: int64 where "C = push_bit 4 (scast (t3 c))"
  define W1 :: int64 where "W1 = A - B"
  define W2 :: int64 where "W2 = signed_drop_bit 11 (W1 * scast (t2 c))"
  define W3 :: int64 where
    "W3 = signed_drop_bit 12 (signed_drop_bit 1 W1 * signed_drop_bit 1 W1)"
  define W4 :: int64 where "W4 = signed_drop_bit 14 (W3 * C)"
  define v1 where "v1 = sint raw div 2 ^ 3 - uint (t1 c) * 2 ^ 1"
  define v2 where "v2 = (v1 * sint (t2 c)) div 2 ^ 11"
  define v3 where "v3 = ((v1 div 2 ^ 1) * (v1 div 2 ^ 1)) div 2 ^ 12"
  define v4 where "v4 = (v3 * (sint (t3 c) * 2 ^ 4)) div 2 ^ 14"
  have raw3: "\<bar>sint raw div 2 ^ 3\<bar> \<le> 2 ^ 17"
    using assms by (intro abs_div_pow2) simp
  have t1x: "\<bar>uint (t1 c) * 2 ^ 1\<bar> \<le> 2 ^ 17"
    using abs_uint16 [of "t1 c"] by simp
  have sA: "sint A = sint raw div 2 ^ 3"
    unfolding A_def by (simp only: sint_shr sint_scast_32_64)
  have sB: "sint B = uint (t1 c) * 2 ^ 1"
  proof -
    have "\<bar>sint (ucast (t1 c) :: int64) * 2 ^ 1\<bar> < 2 ^ 63"
      unfolding sint_ucast_16_64 using t1x by simp
    then have "sint (push_bit 1 (ucast (t1 c)) :: int64) = sint (ucast (t1 c) :: int64) * 2 ^ 1"
      by (rule sint_shl64)
    then show ?thesis by (simp only: B_def sint_ucast_16_64)
  qed
  have bv1: "\<bar>v1\<bar> \<le> 2 ^ 18"
  proof -
    have "0 \<le> uint (t1 c)" by simp
    moreover have "uint (t1 c) < 65536" using uint_bounded [of "t1 c"] by simp
    moreover have "\<bar>sint raw div 8\<bar> \<le> 131072" using raw3 by simp
    moreover have "v1 = sint raw div 8 - uint (t1 c) * 2" by (simp add: v1_def)
    ultimately have "\<bar>v1\<bar> \<le> 262144" by linarith
    then show ?thesis by simp
  qed
  have s1: "sint W1 = v1"
  proof -
    have "\<bar>sint A - sint B\<bar> < 2 ^ 63"
      unfolding sA sB v1_def [symmetric] using bv1 by simp
    then have "sint (A - B) = sint A - sint B" by (rule sint_diff64)
    then show ?thesis by (simp only: W1_def v1_def sA sB)
  qed
  have m2: "\<bar>v1 * sint (t2 c)\<bar> \<le> 2 ^ 18 * 2 ^ 15"
    using bv1 abs_sint16 [of "t2 c"] by (rule abs_mult_le)
  have s2: "sint W2 = v2"
  proof -
    have "\<bar>sint W1 * sint (scast (t2 c) :: int64)\<bar> < 2 ^ 63"
      unfolding s1 sint_scast_16_64 using m2 by simp
    then have "sint (W1 * scast (t2 c)) = sint W1 * sint (scast (t2 c) :: int64)"
      by (rule sint_mult64)
    then show ?thesis by (simp only: W2_def v2_def sint_shr s1 sint_scast_16_64)
  qed
  have bv2: "\<bar>v2\<bar> \<le> 2 ^ 22"
    unfolding v2_def using m2 by (intro abs_div_pow2) simp
  have h1: "\<bar>v1 div 2 ^ 1\<bar> \<le> 2 ^ 17"
    using bv1 by (intro abs_div_pow2) simp
  have m3: "\<bar>(v1 div 2 ^ 1) * (v1 div 2 ^ 1)\<bar> \<le> 2 ^ 17 * 2 ^ 17"
    using h1 h1 by (rule abs_mult_le)
  have s3: "sint W3 = v3"
  proof -
    have "\<bar>sint (signed_drop_bit 1 W1) * sint (signed_drop_bit 1 W1)\<bar> < 2 ^ 63"
      unfolding sint_shr s1 using m3 by simp
    then have "sint (signed_drop_bit 1 W1 * signed_drop_bit 1 W1)
        = sint (signed_drop_bit 1 W1) * sint (signed_drop_bit 1 W1)"
      by (rule sint_mult64)
    then show ?thesis by (simp only: W3_def v3_def sint_shr s1)
  qed
  have bv3: "\<bar>v3\<bar> \<le> 2 ^ 22"
    unfolding v3_def using m3 by (intro abs_div_pow2) simp
  have t3x: "\<bar>sint (t3 c) * 2 ^ 4\<bar> \<le> 2 ^ 11"
    using abs_sint8 [of "t3 c"] by simp
  have sC: "sint C = sint (t3 c) * 2 ^ 4"
  proof -
    have "\<bar>sint (scast (t3 c) :: int64) * 2 ^ 4\<bar> < 2 ^ 63"
      unfolding sint_scast_8_64 using t3x by simp
    then have "sint (push_bit 4 (scast (t3 c)) :: int64) = sint (scast (t3 c) :: int64) * 2 ^ 4"
      by (rule sint_shl64)
    then show ?thesis by (simp only: C_def sint_scast_8_64)
  qed
  have m4: "\<bar>v3 * (sint (t3 c) * 2 ^ 4)\<bar> \<le> 2 ^ 22 * 2 ^ 11"
    using bv3 t3x by (rule abs_mult_le)
  have s4: "sint W4 = v4"
  proof -
    have "\<bar>sint W3 * sint C\<bar> < 2 ^ 63"
      unfolding s3 sC using m4 by simp
    then have "sint (W3 * C) = sint W3 * sint C"
      by (rule sint_mult64)
    then show ?thesis by (simp only: W4_def v4_def sint_shr s3 sC)
  qed
  have bv4: "\<bar>v4\<bar> \<le> 2 ^ 19"
    unfolding v4_def using m4 by (intro abs_div_pow2) simp
  have bt: "\<bar>v2 + v4\<bar> \<le> 2 ^ 23"
    using bv2 bv4 by simp
  define T :: int64 where "T = W2 + W4"
  have st: "sint T = v2 + v4"
  proof -
    have "\<bar>sint W2 + sint W4\<bar> < 2 ^ 63"
      unfolding s2 s4 using bt by simp
    then have "sint (W2 + W4) = sint W2 + sint W4" by (rule sint_add64)
    then show ?thesis by (simp only: T_def s2 s4)
  qed
  have s5: "sint (T * 5 + 128) = (v2 + v4) * 5 + 128"
  proof -
    have five: "sint (5 :: int64) = 5" and c128: "sint (128 :: int64) = 128"
      by simp_all
    have "\<bar>sint T * sint (5 :: int64)\<bar> < 2 ^ 63"
      unfolding st five using bt by simp
    then have a: "sint (T * 5) = sint T * sint (5 :: int64)" by (rule sint_mult64)
    have "\<bar>sint (T * 5) + sint (128 :: int64)\<bar> < 2 ^ 63"
      unfolding a st five c128 using bt by simp
    then have "sint (T * 5 + 128) = sint (T * 5) + sint (128 :: int64)" by (rule sint_add64)
    then show ?thesis by (simp only: a st five c128)
  qed
  have sc: "sint (centiCelsius T) = ((v2 + v4) * 5 + 128) div 2 ^ 8"
  proof -
    have "\<bar>((v2 + v4) * 5 + 128) div 2 ^ 8\<bar> \<le> 2 ^ 20"
      using bt by (intro abs_div_pow2) simp
    then have "\<bar>sint (signed_drop_bit 8 (T * 5 + 128))\<bar> < 2 ^ 31"
      unfolding sint_shr s5 by simp
    then have "sint (ucast (signed_drop_bit 8 (T * 5 + 128)) :: int32)
        = sint (signed_drop_bit 8 (T * 5 + 128))"
      by (rule sint_ucast_64_32)
    then show ?thesis by (simp only: centiCelsius_def sint_shr s5)
  qed
  have sf: "sint (ucast T :: int32) = v2 + v4"
  proof -
    have "\<bar>sint T\<bar> < 2 ^ 31" unfolding st using bt by simp
    then have "sint (ucast T :: int32) = sint T" by (rule sint_ucast_64_32)
    then show ?thesis by (simp only: st)
  qed
  have "compensateTempInt c raw = (centiCelsius T, ucast T)"
    by (simp add: compensateTempInt_def Let_def A_def B_def C_def W1_def W2_def W3_def W4_def
        T_def)
  moreover have "spec_compensateTemperature (uint (t1 c)) (sint (t2 c)) (sint (t3 c)) (sint raw)
      = (((v2 + v4) * 5 + 128) div 2 ^ 8, v2 + v4)"
    by (simp add: spec_compensateTemperature_def Let_def v1_def v2_def v3_def v4_def)
  ultimately show ?thesis
    by (simp only: fst_conv snd_conv sc sf)
qed

theorem compensateTempInt_spec_witness:
  "0 \<le> sint (500000 :: int32) \<and> sint (500000 :: int32) < 2 ^ 20
   \<and> (sint (fst (compensateTempInt exampleCalibration 500000)),
        sint (snd (compensateTempInt exampleCalibration 500000))) = (2630, 134664)"
  using compensateTempInt_spec [of 500000 exampleCalibration]
  by (simp add: exampleCalibration_def spec_compensateTemperature_def)

section \<open>Consistency of the scaled temperature\<close>




section \<open>Properties of pressure compensation\<close>

lemma smallDenominator_truncates:
  "toInt32 exactArithmetic
     (pressureDenominator exactArithmetic smallDenominatorCalibration (- 920608)) = 0"
  by (simp add: pressureDenominator_def exactArithmetic_def smallDenominatorCalibration_def
      exampleCalibration_def towardZero_def)

text \<open>
  C4: for every raw code, every \<open>tFine\<close> and all coefficients, and whatever the
  floating-point operations compute: when the denominator \<open>var1\<close> converted to \<open>int32\<close> is
  zero, \<open>compensatePressureFloat\<close> returns the constant 0. The result is a float in every
  case: the function has no error result, and none of its operations panics.
\<close>

theorem compensatePressureFloat_zero_denominator:
  assumes "toInt32 F (pressureDenominator F c tFine) = 0"
  shows "compensatePressureFloat F c raw tFine = ofInt F 0"
  using assms
  by (simp add: compensatePressureFloat_def pressureDenominator_def Let_def)

theorem compensatePressureFloat_zero_denominator_witness:
  "toInt32 exactArithmetic
     (pressureDenominator exactArithmetic smallDenominatorCalibration (- 920608)) = 0
   \<and> compensatePressureFloat exactArithmetic smallDenominatorCalibration 400000 (- 920608) = 0"
  using compensatePressureFloat_zero_denominator
          [of exactArithmetic smallDenominatorCalibration "- 920608" 400000]
        smallDenominator_truncates
  by (simp add: exactArithmetic_def)

section \<open>Properties of humidity compensation\<close>

lemma uint_eq_sint32: "0 \<le> sint x \<Longrightarrow> uint x = sint x" for x :: int32
proof -
  assume nonneg: "0 \<le> sint x"
  have "sint x < 2 ^ 32"
    using sint_lt [of x] by simp
  with nonneg have "take_bit 32 (sint x) = sint x"
    by (simp add: take_bit_int_eq_self)
  moreover have "uint (word_of_int (sint x) :: int32) = take_bit 32 (sint x)"
    by (simp only: uint_word_of_int_eq) simp
  ultimately show ?thesis by simp
qed

lemma calcHum_example_high: "sint (calcHum exampleCalibration 65535 125000) = 112862"
  by (simp add: calcHum_def exampleCalibration_def tempScaled_def quo32_def
      signed_divide_int_def)

lemma calcHum_example_negative: "sint (calcHum exampleCalibration 0 125000) = - 35606"
  by (simp add: calcHum_def exampleCalibration_def tempScaled_def quo32_def
      signed_divide_int_def)

lemma calcHum_example_inside: "sint (calcHum exampleCalibration 20000 125000) = 36061"
  by (simp add: calcHum_def exampleCalibration_def tempScaled_def quo32_def
      signed_divide_int_def)

text \<open>
  C5: for every raw code, every \<open>tFine\<close> and all coefficients, the result of
  \<open>compensateHumidityInt\<close> lies between 0 and 100000: it is 100000 when the computed value
  is above 100000, 0 when the computed value is negative, and the computed value
  otherwise. The function has no error result.
\<close>

theorem compensateHumidityInt_clamped:
  "uint (compensateHumidityInt c raw tFine) \<le> 100000
   \<and> (100000 < sint (calcHum c raw tFine) \<longrightarrow> compensateHumidityInt c raw tFine = 100000)
   \<and> (sint (calcHum c raw tFine) < 0 \<longrightarrow> compensateHumidityInt c raw tFine = 0)
   \<and> (0 \<le> sint (calcHum c raw tFine) \<and> sint (calcHum c raw tFine) \<le> 100000 \<longrightarrow>
        compensateHumidityInt c raw tFine = calcHum c raw tFine)"
  by (auto simp add: compensateHumidityInt_def Let_def uint_eq_sint32)

theorem compensateHumidityInt_clamped_witness:
  "100000 < sint (calcHum exampleCalibration 65535 125000)
   \<and> compensateHumidityInt exampleCalibration 65535 125000 = 100000
   \<and> sint (calcHum exampleCalibration 0 125000) < 0
   \<and> compensateHumidityInt exampleCalibration 0 125000 = 0
   \<and> 0 \<le> sint (calcHum exampleCalibration 20000 125000)
   \<and> sint (calcHum exampleCalibration 20000 125000) \<le> 100000
   \<and> sint (compensateHumidityInt exampleCalibration 20000 125000) = 36061"
  using compensateHumidityInt_clamped [of exampleCalibration 65535 125000]
        compensateHumidityInt_clamped [of exampleCalibration 0 125000]
        compensateHumidityInt_clamped [of exampleCalibration 20000 125000]
        calcHum_example_high calcHum_example_negative calcHum_example_inside
  by simp

section \<open>Properties of the idle status\<close>

lemma idle_mask_bits:
  "v AND 60 = 0 \<longleftrightarrow> \<not> bit v 2 \<and> \<not> bit v 3 \<and> \<not> bit v 4 \<and> \<not> bit v 5" for v :: byte
proof -
  have "(60 :: byte) = 2 ^ 2 OR 2 ^ 3 OR 2 ^ 4 OR 2 ^ 5"
    by simp
  then have "v AND 60 = (v AND 2 ^ 2) OR (v AND 2 ^ 3) OR (v AND 2 ^ 4) OR (v AND 2 ^ 5)"
    by (simp only: bit.conj_disj_distrib)
  then show ?thesis
    by (simp only: or_eq_0_iff and_exp_eq_0_iff_not_bit)
qed

text \<open>
  C6: when the read of the status register \<open>0x1D\<close> delivers the byte \<open>v\<close>, \<open>isIdle68x\<close>
  answers true exactly when \<open>v\<close> has none of the bits of the mask \<open>0b00111100\<close>, the bits 2
  to 5, whatever its other bits; when the read fails, the answer carries the error of the
  transport. One read of one byte is issued.
\<close>

theorem isIdle68x_status:
  "(tr (device s) 0x1D 1 = (Inr (v # vs), dv) \<longrightarrow>
      fst (isIdle68x tr s) = (v AND 0b00111100 = 0, None)
      \<and> (v AND 0b00111100 = 0 \<longleftrightarrow> \<not> bit v 2 \<and> \<not> bit v 3 \<and> \<not> bit v 4 \<and> \<not> bit v 5))
   \<and> (tr (device s) 0x1D 1 = (Inl err, dv) \<longrightarrow> fst (isIdle68x tr s) = (False, Some err))
   \<and> reads (snd (isIdle68x tr s)) = reads s @ [(0x1D, 1)]"
  using idle_mask_bits [of v]
  by (auto simp add: isIdle68x_def readReg_def store_def Let_def
      split: prod.splits sum.splits option.splits)

theorem isIdle68x_status_witness:
  "registerFile (\<lambda>a. 0x00) 0x1D 1 = (Inr [0x00], \<lambda>a. 0x00)
   \<and> fst (isIdle68x registerFile (freshBus (\<lambda>a. 0x00))) = (True, None :: nat option)
   \<and> registerFile (\<lambda>a. 0b01100000) 0x1D 1 = (Inr [0b01100000], \<lambda>a. 0b01100000)
   \<and> fst (isIdle68x registerFile (freshBus (\<lambda>a. 0b01100000))) = (False, None :: nat option)
   \<and> registerFile (\<lambda>a. 0b00000100) 0x1D 1 = (Inr [0b00000100], \<lambda>a. 0b00000100)
   \<and> fst (isIdle68x registerFile (freshBus (\<lambda>a. 0b00000100))) = (False, None :: nat option)
   \<and> registerFile (\<lambda>a. 0b00000001) 0x1D 1 = (Inr [0b00000001], \<lambda>a. 0b00000001)
   \<and> fst (isIdle68x registerFile (freshBus (\<lambda>a. 0b00000001))) = (True, None :: nat option)
   \<and> failing (5 :: nat) () 0x1D 1 = (Inl 5, ())
   \<and> fst (isIdle68x (failing (5 :: nat)) (freshBus ())) = (False, Some 5)"
proof -
  let ?rf = "registerFile :: (byte \<Rightarrow> byte, nat) transport"
  show ?thesis
    using isIdle68x_status [of ?rf "freshBus (\<lambda>a. 0x00)" "0x00" "[]" "\<lambda>a. 0x00"]
          isIdle68x_status [of ?rf "freshBus (\<lambda>a. 0b01100000)" "0b01100000" "[]"
                               "\<lambda>a. 0b01100000"]
          isIdle68x_status [of ?rf "freshBus (\<lambda>a. 0b00000100)" "0b00000100" "[]"
                               "\<lambda>a. 0b00000100"]
          isIdle68x_status [of ?rf "freshBus (\<lambda>a. 0b00000001)" "0b00000001" "[]"
                               "\<lambda>a. 0b00000001"]
          isIdle68x_status [of "failing (5 :: nat)" "freshBus ()" _ _ "()" 5]
    by (simp add: registerFile_def failing_def freshBus_def)
qed

section \<open>Properties of the measurement cycle\<close>

lemma upt8: "[0..<8] = [0, 1, 2, 3, 4, 5, 6, 7]"
  by code_simp

lemma readMeasurement_example:
  "readMeasurement registerFile exampleDev (freshBus exampleRegisters)
   = ((None, exampleMeasurement), \<lparr>device = exampleRegisters, reads = [(0x1F, 8)]\<rparr>)"
  by (simp add: readMeasurement_def readReg_def registerFile_def exampleDev_def freshBus_def
      store_def exampleRegisters_def exampleMeasurement_def upt8)

lemma sense68x_bus:
  "snd (snd (sense68x F tr d e s))
   = \<lparr>device = snd (tr (device s) 0x1F (if isBME d then 8 else 6)),
      reads = reads s @ [(0x1F, if isBME d then 8 else 6)]\<rparr>"
  by (simp add: sense68x_def readMeasurement_def readReg_def Let_def
      split: prod.splits sum.splits option.splits)

text \<open>
  C7, as stated: 6 bytes are read when only temperature and pressure are measured.
  \<open>sense68x\<close> chooses the length from \<open>d.isBME\<close>, the kind of the device, not from the
  channels requested: a BME device with humidity off reads 8 bytes.
\<close>

theorem sense68x_humidity_off_counterexample:
  "optHumidity (opts humidityOffDev) = Off
   \<and> reads (snd (snd (sense68x exactArithmetic registerFile humidityOffDev zeroEnv
                       (freshBus exampleRegisters)))) = [(0x1F, 8)]"
  by (simp add: sense68x_bus humidityOffDev_def freshBus_def)

text \<open>
  C7, amended: every call of \<open>sense68x\<close> issues exactly one register read, at the address
  \<open>0x1F\<close>, of 8 bytes when the device is a BME and of 6 bytes when it is not, whatever
  channels are requested and whether the read succeeds or fails; the transport is left in
  the state after that one read.
\<close>

theorem sense68x_single_read:
  "reads (snd (snd (sense68x F tr d e s))) = reads s @ [(0x1F, if isBME d then 8 else 6)]
   \<and> device (snd (snd (sense68x F tr d e s)))
       = snd (tr (device s) 0x1F (if isBME d then 8 else 6))"
  by (simp add: sense68x_bus)

subsection \<open>Raw codes\<close>

text \<open>
  The array \<open>buf\<close> has 8 bytes whatever the transport delivers, so the constant indices
  0 to 7 of \<open>sense68x\<close> are in range. On a device that is not a BME the bytes 6 and 7 are
  outside the slice that is read, and stay 0.
\<close>

lemma length_store: "length (store b bs) = length b"
  by (simp add: store_def)

lemma readMeasurement_length: "length (snd (fst (readMeasurement tr d s))) = 8"
  by (simp add: readMeasurement_def readReg_def length_store Let_def
      split: prod.splits sum.splits)

lemma readMeasurement_not_BME:
  assumes "\<not> isBME d"
  shows "drop 6 (snd (fst (readMeasurement tr d s))) = [0, 0]"
  using assms
  by (auto simp add: readMeasurement_def readReg_def length_store Let_def numeral_eq_Suc
      split: prod.splits sum.splits)


lemma bit_byte_less: "bit (a :: byte) n \<Longrightarrow> n < 8"
  using bit_imp_le_length [of a n] by simp

lemma shr_ucast_byte:
  "signed_drop_bit 4 (ucast c :: int32) = ucast (drop_bit 4 c)" for c :: byte
  by (rule bit_word_eqI) (auto simp add: bit_simps dest: bit_byte_less)

lemma raw20_add:
  "push_bit 12 (ucast a) OR push_bit 4 (ucast b) OR signed_drop_bit 4 (ucast c)
   = (push_bit 12 (ucast a) + (push_bit 4 (ucast b) + ucast (drop_bit 4 c)) :: int32)"
  for a b c :: byte
proof -
  have "push_bit 4 (ucast b) AND ucast (drop_bit 4 c) = (0 :: int32)"
    by (rule bit_word_eqI) (auto simp add: bit_simps dest: bit_byte_less)
  then have bc: "push_bit 4 (ucast b) + ucast (drop_bit 4 c)
      = (push_bit 4 (ucast b) OR ucast (drop_bit 4 c) :: int32)"
    by (rule disjunctive_add_eq_or)
  have "push_bit 12 (ucast a) AND (push_bit 4 (ucast b) OR ucast (drop_bit 4 c)) = (0 :: int32)"
    by (rule bit_word_eqI) (auto simp add: bit_simps dest: bit_byte_less)
  then have "push_bit 12 (ucast a) + (push_bit 4 (ucast b) OR ucast (drop_bit 4 c))
      = (push_bit 12 (ucast a) OR (push_bit 4 (ucast b) OR ucast (drop_bit 4 c)) :: int32)"
    by (rule disjunctive_add_eq_or)
  then show ?thesis
    by (simp only: bc shr_ucast_byte)
qed

lemma uint_byte_less: "uint (a :: byte) < 256"
  using uint_bounded [of a] by simp

lemma sint_word_of_int32: "0 \<le> k \<Longrightarrow> k < 2 ^ 31 \<Longrightarrow> sint (word_of_int k :: int32) = k"
  by (simp add: sint_sbintrunc' signed_take_bit_int_eq_self)

lemma raw20_value:
  "sint (push_bit 12 (ucast a) OR push_bit 4 (ucast b) OR signed_drop_bit 4 (ucast c) :: int32)
   = uint a * 2 ^ 12 + uint b * 2 ^ 4 + uint c div 2 ^ 4" for a b c :: byte
proof -
  have "uint (drop_bit 4 c) = uint c div 2 ^ 4"
    by (simp add: drop_bit_eq_div uint_div_distrib)
  then have "(word_of_int (uint c div 2 ^ 4) :: int32) = ucast (drop_bit 4 c)"
    by (metis of_int_uint)
  then have "(push_bit 12 (ucast a) + (push_bit 4 (ucast b) + ucast (drop_bit 4 c)) :: int32)
      = word_of_int (uint a * 2 ^ 12 + uint b * 2 ^ 4 + uint c div 2 ^ 4)"
    by (simp add: push_bit_eq_mult)
  moreover have "0 \<le> uint a * 2 ^ 12 + uint b * 2 ^ 4 + uint c div 2 ^ 4"
    by (simp add: pos_imp_zdiv_nonneg_iff)
  moreover have "uint a * 2 ^ 12 + uint b * 2 ^ 4 + uint c div 2 ^ 4 < 2 ^ 31"
    using uint_byte_less [of a] uint_byte_less [of b] uint_byte_less [of c] by simp
  ultimately show ?thesis
    by (simp only: raw20_add sint_word_of_int32)
qed

lemma raw16_value:
  "sint (push_bit 8 (ucast a) OR ucast b :: int32) = uint a * 2 ^ 8 + uint b" for a b :: byte
proof -
  have "push_bit 8 (ucast a) AND ucast b = (0 :: int32)"
    by (rule bit_word_eqI) (auto simp add: bit_simps dest: bit_byte_less)
  then have "push_bit 8 (ucast a) + ucast b = (push_bit 8 (ucast a) OR ucast b :: int32)"
    by (rule disjunctive_add_eq_or)
  moreover have "(push_bit 8 (ucast a) + ucast b :: int32) = word_of_int (uint a * 2 ^ 8 + uint b)"
    by (simp add: push_bit_eq_mult)
  ultimately have eq: "(push_bit 8 (ucast a) OR ucast b :: int32)
      = word_of_int (uint a * 2 ^ 8 + uint b)"
    by (simp only:)
  have nonneg: "0 \<le> uint a * 2 ^ 8 + uint b"
    by simp
  have less: "uint a * 2 ^ 8 + uint b < 2 ^ 31"
    using uint_byte_less [of a] uint_byte_less [of b] by simp
  show ?thesis
    unfolding eq using nonneg less by (rule sint_word_of_int32)
qed

lemma raw20_range:
  "0 \<le> uint a * 2 ^ 12 + uint b * 2 ^ 4 + uint c div 2 ^ 4
   \<and> uint a * 2 ^ 12 + uint b * 2 ^ 4 + uint c div 2 ^ 4 < 2 ^ 20" for a b c :: byte
proof -
  have "0 \<le> uint c div 2 ^ 4"
    by (simp add: pos_imp_zdiv_nonneg_iff)
  moreover have "uint c div 2 ^ 4 < 16"
    using uint_byte_less [of c] by simp
  ultimately show ?thesis
    using uint_byte_less [of a] uint_byte_less [of b] by simp
qed

text \<open>
  The three expressions on unbounded integers: the shifted fields do not overlap, so the
  value of a 20-bit code is \<open>byte0 * 4096 + byte1 * 16 + byte2 div 16\<close>, between 0 and
  \<open>2^20 - 1\<close>, and the value of the 16-bit code is \<open>byte6 * 256 + byte7\<close>.
\<close>

lemma raw_codes:
  "sint (pRaw buf) = uint (buf ! 0) * 2 ^ 12 + uint (buf ! 1) * 2 ^ 4 + uint (buf ! 2) div 2 ^ 4
   \<and> 0 \<le> sint (pRaw buf) \<and> sint (pRaw buf) < 2 ^ 20
   \<and> sint (tRaw buf) = uint (buf ! 3) * 2 ^ 12 + uint (buf ! 4) * 2 ^ 4 + uint (buf ! 5) div 2 ^ 4
   \<and> 0 \<le> sint (tRaw buf) \<and> sint (tRaw buf) < 2 ^ 20
   \<and> sint (hRaw buf) = uint (buf ! 6) * 2 ^ 8 + uint (buf ! 7)
   \<and> 0 \<le> sint (hRaw buf) \<and> sint (hRaw buf) < 2 ^ 16"
proof -
  have p: "sint (pRaw buf)
      = uint (buf ! 0) * 2 ^ 12 + uint (buf ! 1) * 2 ^ 4 + uint (buf ! 2) div 2 ^ 4"
    unfolding pRaw_def by (rule raw20_value)
  have t: "sint (tRaw buf)
      = uint (buf ! 3) * 2 ^ 12 + uint (buf ! 4) * 2 ^ 4 + uint (buf ! 5) div 2 ^ 4"
    unfolding tRaw_def by (rule raw20_value)
  have h: "sint (hRaw buf) = uint (buf ! 6) * 2 ^ 8 + uint (buf ! 7)"
    unfolding hRaw_def by (rule raw16_value)
  have hr: "0 \<le> sint (hRaw buf) \<and> sint (hRaw buf) < 2 ^ 16"
    unfolding h using uint_byte_less [of "buf ! 6"] uint_byte_less [of "buf ! 7"] by simp
  show ?thesis
    using raw20_range [of "buf ! 0" "buf ! 1" "buf ! 2"]
          raw20_range [of "buf ! 3" "buf ! 4" "buf ! 5"] hr
    by (simp only: p t h)
qed

lemma word_of_int_sint32: "sint w = k \<Longrightarrow> w = (word_of_int k :: int32)"
  by auto

lemma readMeasurement_delivered:
  assumes "tr (device s) 0x1F (if isBME d then 8 else 6) = (Inr bs, dv)"
      and "length bs = (if isBME d then 8 else 6)"
  shows "readMeasurement tr d s
         = ((None, bs @ replicate (8 - length bs) 0),
            \<lparr>device = dv, reads = reads s @ [(0x1F, if isBME d then 8 else 6)]\<rparr>)"
  using assms
  by (auto simp add: readMeasurement_def readReg_def store_def Let_def split: if_splits)

lemma compensate_raw_codes:
  "compensate F d buf e =
     \<lparr>Temperature =
        scast (fst (compensateTempInt (cal68x d) (tRaw buf))) * 10 * MilliCelsius + ZeroCelsius,
      Pressure =
        (if optPressure (opts d) \<noteq> Off
         then quo64 (toInt64 F (fmul F (compensatePressureFloat F (cal68x d) (pRaw buf)
                                          (snd (compensateTempInt (cal68x d) (tRaw buf))))
                                       (ofInt F 256))
                     * 15625 * MicroPascal) 4
         else Pressure e),
      Humidity =
        (if optHumidity (opts d) \<noteq> Off
         then quo32 (compensateHumidityInt (cal68x d) (hRaw buf)
                       (snd (compensateTempInt (cal68x d) (tRaw buf))) * 10000) 1024 * MicroRH
         else Humidity e)\<rparr>"
  by (cases e) (simp add: compensate_def Let_def split: prod.splits)

lemma compensateTempInt_example: "compensateTempInt exampleCalibration 500000 = (2630, 134664)"
  by (simp add: compensateTempInt_def exampleCalibration_def centiCelsius_def Let_def)

lemma pressure_example:
  "compensatePressureFloat exactArithmetic exampleCalibration 400000 134664
   = 5322461894010146326508137801493480149348584238773937799 /
     56689762439165451038076752663975362341955398828032"
  by (simp add: compensatePressureFloat_def exactArithmetic_def exampleCalibration_def
      towardZero_def Let_def)

lemma pressure_example_scaled:
  "quo64 (toInt64 exactArithmetic
            (fmul exactArithmetic
               (compensatePressureFloat exactArithmetic exampleCalibration 400000 134664)
               (ofInt exactArithmetic 256))
          * 15625 * MicroPascal) 4 = 93887531250000"
  unfolding pressure_example
  by (simp add: exactArithmetic_def towardZero_def quo64_def MicroPascal_def
      signed_divide_int_def)

lemma humidity_example:
  "quo32 (compensateHumidityInt exampleCalibration 20000 134664 * 10000) 1024 * MicroRH = 3539550"
  by (simp add: compensateHumidityInt_def calcHum_def exampleCalibration_def tempScaled_def
      quo32_def signed_divide_int_def MicroRH_def Let_def)

lemma registerFile_example:
  "registerFile exampleRegisters 0x1F 8 = (Inr exampleMeasurement, exampleRegisters)"
  by (simp add: registerFile_def exampleRegisters_def exampleMeasurement_def upt8)

text \<open>
  C8: when the read of the measurement block delivers the bytes asked for, \<open>sense68x\<close>
  succeeds and computes its outputs from these raw codes and no others: \<open>pRaw\<close> from
  the bytes 0 to 2 of the buffer and \<open>tRaw\<close> from the bytes 3 to 5, each
  \<open>(byte0<<12) | (byte1<<4) | (byte2>>4)\<close>, that is \<open>byte0 * 4096 + byte1 * 16 + byte2 div 16\<close>,
  between 0 and \<open>2^20 - 1\<close>, the low nibble of the third byte dropped; and, only when
  humidity is requested, \<open>hRaw\<close> as \<open>(byte6<<8) | byte7\<close>, that is
  \<open>byte6 * 256 + byte7\<close>, between 0 and \<open>2^16 - 1\<close>. The temperature is compensated from
  \<open>tRaw\<close>, the pressure from \<open>pRaw\<close>, the humidity from \<open>hRaw\<close>; a field whose channel
  is not requested keeps the value it had.
\<close>

theorem sense68x_raw_codes:
  assumes "tr (device s) 0x1F (if isBME d then 8 else 6) = (Inr bs, dv)"
      and "length bs = (if isBME d then 8 else 6)"
  shows
    "let buf = bs @ replicate (8 - length bs) 0;
         P = uint (buf ! 0) * 2 ^ 12 + uint (buf ! 1) * 2 ^ 4 + uint (buf ! 2) div 2 ^ 4;
         T = uint (buf ! 3) * 2 ^ 12 + uint (buf ! 4) * 2 ^ 4 + uint (buf ! 5) div 2 ^ 4;
         H = uint (buf ! 6) * 2 ^ 8 + uint (buf ! 7);
         t = fst (compensateTempInt (cal68x d) (word_of_int T));
         tFine = snd (compensateTempInt (cal68x d) (word_of_int T))
     in 0 \<le> P \<and> P < 2 ^ 20 \<and> 0 \<le> T \<and> T < 2 ^ 20 \<and> 0 \<le> H \<and> H < 2 ^ 16
        \<and> sense68x F tr d e s =
            (None,
             \<lparr>Temperature = scast t * 10 * MilliCelsius + ZeroCelsius,
              Pressure =
                (if optPressure (opts d) \<noteq> Off
                 then quo64 (toInt64 F (fmul F (compensatePressureFloat F (cal68x d)
                                                  (word_of_int P) tFine)
                                               (ofInt F 256))
                             * 15625 * MicroPascal) 4
                 else Pressure e),
              Humidity =
                (if optHumidity (opts d) \<noteq> Off
                 then quo32 (compensateHumidityInt (cal68x d) (word_of_int H) tFine * 10000) 1024
                      * MicroRH
                 else Humidity e)\<rparr>,
             \<lparr>device = dv, reads = reads s @ [(0x1F, if isBME d then 8 else 6)]\<rparr>)"
proof -
  define buf where "buf = bs @ replicate (8 - length bs) 0"
  have rc: "sint (pRaw buf) = uint (buf ! 0) * 2 ^ 12 + uint (buf ! 1) * 2 ^ 4 + uint (buf ! 2) div 2 ^ 4
   \<and> 0 \<le> sint (pRaw buf) \<and> sint (pRaw buf) < 2 ^ 20
   \<and> sint (tRaw buf) = uint (buf ! 3) * 2 ^ 12 + uint (buf ! 4) * 2 ^ 4 + uint (buf ! 5) div 2 ^ 4
   \<and> 0 \<le> sint (tRaw buf) \<and> sint (tRaw buf) < 2 ^ 20
   \<and> sint (hRaw buf) = uint (buf ! 6) * 2 ^ 8 + uint (buf ! 7)
   \<and> 0 \<le> sint (hRaw buf) \<and> sint (hRaw buf) < 2 ^ 16"
    by (rule raw_codes)
  have p: "pRaw buf
      = word_of_int (uint (buf ! 0) * 2 ^ 12 + uint (buf ! 1) * 2 ^ 4 + uint (buf ! 2) div 2 ^ 4)"
    using rc by (intro word_of_int_sint32) simp
  have t: "tRaw buf
      = word_of_int (uint (buf ! 3) * 2 ^ 12 + uint (buf ! 4) * 2 ^ 4 + uint (buf ! 5) div 2 ^ 4)"
    using rc by (intro word_of_int_sint32) simp
  have h: "hRaw buf = word_of_int (uint (buf ! 6) * 2 ^ 8 + uint (buf ! 7))"
    using rc by (intro word_of_int_sint32) simp
  have s: "sense68x F tr d e s
      = (None, compensate F d buf e, \<lparr>device = dv, reads = reads s @ [(0x1F, if isBME d then 8 else 6)]\<rparr>)"
    using readMeasurement_delivered [of tr s d bs dv] assms
    by (simp add: sense68x_def buf_def)
  show ?thesis
    unfolding Let_def buf_def [symmetric] s compensate_raw_codes p t h
    using rc by (simp only: p t h) simp
qed

theorem sense68x_raw_codes_witness:
  "(registerFile :: (byte \<Rightarrow> byte, nat) transport) exampleRegisters 0x1F
       (if isBME exampleDev then 8 else 6)
     = (Inr exampleMeasurement, exampleRegisters)
   \<and> length exampleMeasurement = (if isBME exampleDev then 8 else 6)
   \<and> sense68x exactArithmetic registerFile exampleDev zeroEnv (freshBus exampleRegisters)
       = (None :: nat option,
          \<lparr>Temperature = 299450000000, Pressure = 93887531250000, Humidity = 3539550\<rparr>,
          \<lparr>device = exampleRegisters, reads = [(0x1F, 8)]\<rparr>)
   \<and> (registerFile :: (byte \<Rightarrow> byte, nat) transport) exampleRegisters 0x1F
       (if isBME humidityOffDev then 8 else 6)
     = (Inr exampleMeasurement, exampleRegisters)
   \<and> length exampleMeasurement = (if isBME humidityOffDev then 8 else 6)
   \<and> sense68x exactArithmetic registerFile humidityOffDev
         \<lparr>Temperature = 1, Pressure = 2, Humidity = 3\<rparr> (freshBus exampleRegisters)
       = (None :: nat option,
          \<lparr>Temperature = 299450000000, Pressure = 93887531250000, Humidity = 3\<rparr>,
          \<lparr>device = exampleRegisters, reads = [(0x1F, 8)]\<rparr>)"
proof -
  let ?rf = "registerFile :: (byte \<Rightarrow> byte, nat) transport"
  have rd: "?rf exampleRegisters 0x1F 8 = (Inr exampleMeasurement, exampleRegisters)"
    by (rule registerFile_example)
  show ?thesis
    using sense68x_raw_codes [where tr = ?rf and s = "freshBus exampleRegisters"
            and d = exampleDev and bs = exampleMeasurement and dv = exampleRegisters
            and F = exactArithmetic and e = zeroEnv]
          sense68x_raw_codes [where tr = ?rf and s = "freshBus exampleRegisters"
            and d = humidityOffDev and bs = exampleMeasurement and dv = exampleRegisters
            and F = exactArithmetic and e = "\<lparr>Temperature = 1, Pressure = 2, Humidity = 3\<rparr>"]
          rd
    by (simp add: exampleDev_def humidityOffDev_def freshBus_def zeroEnv_def Let_def
        exampleMeasurement_def compensateTempInt_example pressure_example_scaled humidity_example
        MilliCelsius_def ZeroCelsius_def)
qed

subsection \<open>Temperature output\<close>

lemma compensate_Temperature:
  "Temperature (compensate F d buf e)
   = scast (fst (compensateTempInt (cal68x d) (tRaw buf))) * 10 * MilliCelsius + ZeroCelsius"
  by (simp add: compensate_def Let_def split: prod.splits)

lemma readMeasurement_opts:
  "isBME d1 = isBME d2 \<Longrightarrow> readMeasurement tr d1 s = readMeasurement tr d2 s"
  by (simp add: readMeasurement_def)

lemma compensate_example_temperature:
  "Temperature (compensate exactArithmetic temperatureOnlyDev exampleMeasurement zeroEnv)
   = 299450000000"
  by (simp add: compensate_def temperatureOnlyDev_def exampleMeasurement_def zeroEnv_def
      tRaw_def pRaw_def compensateTempInt_def exampleCalibration_def centiCelsius_def
      MilliCelsius_def ZeroCelsius_def Let_def)

text \<open>
  C9: two measurement cycles on the same bytes with the same coefficients store the same
  temperature, whatever channels each requests (the options of the two devices are
  arbitrary) and whatever is in the pressure and humidity branches: the temperature is
  computed first, from \<open>tRaw\<close> alone, and stored as the centi-degrees times 10
  \<open>MilliCelsius\<close> plus \<open>ZeroCelsius\<close>. The same holds of two calls of \<open>sense68x\<close> that
  issue the same read on the same bus.
\<close>

theorem temperature_independent_of_channels:
  assumes "cal68x d1 = cal68x d2"
  shows "Temperature (compensate F1 d1 buf e1) = Temperature (compensate F2 d2 buf e2)
    \<and> Temperature (compensate F1 d1 buf e1)
        = scast (fst (compensateTempInt (cal68x d1) (tRaw buf))) * 10 * MilliCelsius + ZeroCelsius
    \<and> (isBME d1 = isBME d2 \<longrightarrow>
         fst (sense68x F1 tr d1 e1 s) = fst (sense68x F2 tr d2 e2 s)
         \<and> (fst (sense68x F1 tr d1 e1 s) = None \<longrightarrow>
              Temperature (fst (snd (sense68x F1 tr d1 e1 s)))
              = Temperature (fst (snd (sense68x F2 tr d2 e2 s)))))"
proof (intro conjI impI)
  show "Temperature (compensate F1 d1 buf e1) = Temperature (compensate F2 d2 buf e2)"
    using assms by (simp add: compensate_Temperature)
  show "Temperature (compensate F1 d1 buf e1)
      = scast (fst (compensateTempInt (cal68x d1) (tRaw buf))) * 10 * MilliCelsius + ZeroCelsius"
    by (rule compensate_Temperature)
next
  assume same: "isBME d1 = isBME d2"
  obtain err b s' where r1: "readMeasurement tr d1 s = ((err, b), s')"
    by (metis prod.exhaust)
  with same have r2: "readMeasurement tr d2 s = ((err, b), s')"
    by (simp add: readMeasurement_opts [of d1 d2])
  show "fst (sense68x F1 tr d1 e1 s) = fst (sense68x F2 tr d2 e2 s)"
    by (cases err) (simp_all add: sense68x_def r1 r2)
  show "Temperature (fst (snd (sense68x F1 tr d1 e1 s)))
      = Temperature (fst (snd (sense68x F2 tr d2 e2 s)))"
    if "fst (sense68x F1 tr d1 e1 s) = None"
    using assms that by (cases err) (simp_all add: sense68x_def r1 r2 compensate_Temperature)
qed

theorem temperature_independent_of_channels_witness:
  "cal68x exampleDev = cal68x temperatureOnlyDev
   \<and> isBME exampleDev = isBME temperatureOnlyDev
   \<and> optPressure (opts exampleDev) \<noteq> optPressure (opts temperatureOnlyDev)
   \<and> optHumidity (opts exampleDev) \<noteq> optHumidity (opts temperatureOnlyDev)
   \<and> Temperature (compensate exactArithmetic exampleDev exampleMeasurement zeroEnv)
       = 299450000000
   \<and> Temperature (compensate exactArithmetic temperatureOnlyDev exampleMeasurement zeroEnv)
       = 299450000000
   \<and> fst (sense68x exactArithmetic registerFile exampleDev zeroEnv (freshBus exampleRegisters))
       = (None :: nat option)
   \<and> Temperature (fst (snd (sense68x exactArithmetic registerFile exampleDev zeroEnv
                              (freshBus exampleRegisters) :: nat option \<times> Env \<times> (byte \<Rightarrow> byte) bus)))
       = Temperature (fst (snd (sense68x exactArithmetic registerFile temperatureOnlyDev zeroEnv
                              (freshBus exampleRegisters) :: nat option \<times> Env \<times> (byte \<Rightarrow> byte) bus)))"
proof -
  have cal: "cal68x exampleDev = cal68x temperatureOnlyDev"
    by (simp add: exampleDev_def temperatureOnlyDev_def)
  have ok: "fst (sense68x exactArithmetic registerFile exampleDev zeroEnv
                  (freshBus exampleRegisters)) = (None :: nat option)"
    by (simp add: sense68x_def readMeasurement_example)
  show ?thesis
    using temperature_independent_of_channels
            [OF cal, of exactArithmetic exampleMeasurement zeroEnv exactArithmetic zeroEnv
               "registerFile :: (byte \<Rightarrow> byte, nat) transport" "freshBus exampleRegisters"]
          compensate_example_temperature ok
    by (simp add: exampleDev_def temperatureOnlyDev_def)
qed

end
